theory Spec2Isabelle
  imports Main "HOL-Library.Word"
begin

section \<open>JavaScript values and strings\<close>

text \<open>
  The values a caller hands to the builder are dynamically typed: strings, numbers,
  booleans, \<open>null\<close> and \<open>undefined\<close>; objects and symbols are left out. The numbers are a
  type parameter \<open>'n\<close>: the code never computes with a number, it only tests its type and
  lets the template that embeds it write its text. That text is the runtime's
  \<^verbatim>\<open>Number::toString\<close>, which is no code of the repository; every function that
  renders takes it as its first argument \<open>nts\<close>. Strings are character lists; the only
  characters the code inspects (the double quote and the two round brackets) are single
  code units in every encoding. Field names, operators and logic operators are strings.
\<close>

datatype 'n jsvalue =
    VString string
  | VNumber 'n
  | VBool bool
  | VNull
  | VUndefined

text \<open>The \<^verbatim>\<open>typeof\<close> operator.\<close>

fun typeof :: "'n jsvalue \<Rightarrow> string" where
  "typeof (VString s) = ''string''"
| "typeof (VNumber n) = ''number''"
| "typeof (VBool b) = ''boolean''"
| "typeof VNull = ''object''"
| "typeof VUndefined = ''undefined''"

text \<open>
  The conversion a template literal \<^verbatim>\<open>`${v}`\<close> applies to an interpolated value.
\<close>

fun ToString :: "('n \<Rightarrow> string) \<Rightarrow> 'n jsvalue \<Rightarrow> string" where
  "ToString nts (VString s) = s"
| "ToString nts (VNumber n) = nts n"
| "ToString nts (VBool b) = (if b then ''true'' else ''false'')"
| "ToString nts VNull = ''null''"
| "ToString nts VUndefined = ''undefined''"

text \<open>
  One instance of the parameter, for closed examples: the unsigned 32-bit integers. Each
  of them is a JavaScript number, and the runtime writes it as its decimal numeral.
\<close>

definition digit :: "nat \<Rightarrow> char" where
  "digit d = ''0123456789'' ! d"

fun digits :: "nat \<Rightarrow> string" where
  "digits n = (if n < 10 then [digit n] else digits (n div 10) @ [digit (n mod 10)])"

declare digits.simps [simp del]

definition uint32_text :: "32 word \<Rightarrow> string" where
  "uint32_text w = digits (unat w)"

text \<open>\<^verbatim>\<open>String.prototype.startsWith\<close>, \<^verbatim>\<open>endsWith\<close> and \<^verbatim>\<open>slice\<close>.\<close>

definition startsWith :: "string \<Rightarrow> string \<Rightarrow> bool" where
  "startsWith s p = (take (length p) s = p)"

definition endsWith :: "string \<Rightarrow> string \<Rightarrow> bool" where
  "endsWith s p = (length p \<le> length s \<and> drop (length s - length p) s = p)"

definition slice :: "string \<Rightarrow> int \<Rightarrow> int \<Rightarrow> string" where
  "slice s start end =
     (let len = int (length s);
          from = (if start < 0 then max (len + start) 0 else min start len);
          to = (if end < 0 then max (len + end) 0 else min end len)
      in take (nat (to - from)) (drop (nat from) s))"

text \<open>\<^verbatim>\<open>Array.prototype.join\<close> on an array of strings.\<close>

fun join :: "string \<Rightarrow> string list \<Rightarrow> string" where
  "join sep [] = []"
| "join sep [x] = x"
| "join sep (x # y # ys) = x @ sep @ join sep (y # ys)"

section \<open>Operators\<close>

definition Ops_EQUALS :: string where "Ops_EQUALS = '':''"
definition Ops_STRICT_EQUALS :: string where "Ops_STRICT_EQUALS = '':=''"
definition Ops_GT :: string where "Ops_GT = '':>''"
definition Ops_GTE :: string where "Ops_GTE = '':>=''"
definition Ops_LT :: string where "Ops_LT = '':<''"
definition Ops_LTE :: string where "Ops_LTE = '':<=''"
definition Ops_BETWEEN :: string where "Ops_BETWEEN = '':[''"
definition Ops_STRICT_BETWEEN :: string where "Ops_STRICT_BETWEEN = '':{''"
definition Ops_AND :: string where "Ops_AND = ''AND''"
definition Ops_OR :: string where "Ops_OR = ''OR''"
definition Ops_NOT :: string where "Ops_NOT = ''NOT''"
definition Ops_OR_NOT :: string where "Ops_OR_NOT = ''OR NOT''"
definition Ops_AND_NOT :: string where "Ops_AND_NOT = ''AND NOT''"

section \<open>The expression tree\<close>

text \<open>
  The three node classes the builder instantiates (their base class \<open>QueryNode\<close> is
  abstract, and the builder never creates an instance of it). A \<open>Group\<close> holds its logic
  operator and the array of its children, in the order they were pushed.
\<close>

datatype 'n QueryNode =
    Condition string string "'n jsvalue"
  | BetweenCondition string string "'n jsvalue" "'n jsvalue"
  | GroupNode "'n Group"
and 'n Group =
    Group (logicOperator: string) (nodes: "'n QueryNode list")

text \<open>
  \<^verbatim>\<open>formatValue\<close>, written out once in each leaf class. It returns a value, not a
  text: a string for a string, and any other value as it came.
\<close>

definition Condition_formatValue :: "'n jsvalue \<Rightarrow> 'n jsvalue" where
  "Condition_formatValue v =
     (if typeof v = ''string'' then
        (case v of
           VString s \<Rightarrow> if startsWith s ''\"'' then v else VString (''\"'' @ s @ ''\"'')
         | _ \<Rightarrow> v)
      else v)"

definition BetweenCondition_formatValue :: "'n jsvalue \<Rightarrow> 'n jsvalue" where
  "BetweenCondition_formatValue v =
     (if typeof v = ''string'' then
        (case v of
           VString s \<Rightarrow> if startsWith s ''\"'' then v else VString (''\"'' @ s @ ''\"'')
         | _ \<Rightarrow> v)
      else v)"

definition Condition_toString ::
  "('n \<Rightarrow> string) \<Rightarrow> string \<Rightarrow> string \<Rightarrow> 'n jsvalue \<Rightarrow> string" where
  "Condition_toString nts field operator v =
     field @ operator @ ToString nts (Condition_formatValue v)"

definition BetweenCondition_toString ::
  "('n \<Rightarrow> string) \<Rightarrow> string \<Rightarrow> string \<Rightarrow> 'n jsvalue \<Rightarrow> 'n jsvalue \<Rightarrow> string" where
  "BetweenCondition_toString nts field operator fromValue toValue =
     (let endOperator = (if operator = Ops_STRICT_BETWEEN then ''}'' else '']'')
      in field @ operator @ ToString nts (BetweenCondition_formatValue fromValue) @ '' TO ''
           @ ToString nts (BetweenCondition_formatValue toValue) @ endOperator)"

fun QueryNode_toString :: "('n \<Rightarrow> string) \<Rightarrow> 'n QueryNode \<Rightarrow> string"
and Group_toString :: "('n \<Rightarrow> string) \<Rightarrow> 'n Group \<Rightarrow> string" where
  "QueryNode_toString nts (Condition field operator v) =
     Condition_toString nts field operator v"
| "QueryNode_toString nts (BetweenCondition field operator fromValue toValue) =
     BetweenCondition_toString nts field operator fromValue toValue"
| "QueryNode_toString nts (GroupNode g) = Group_toString nts g"
| "Group_toString nts (Group logic ns) =
     (if length ns = 0 then ''''
      else
        (let parts = map (QueryNode_toString nts) ns;
             joined = join ('' '' @ logic @ '' '') parts
         in if length ns > 1 then ''('' @ joined @ '')'' else joined))"

text \<open>\<^verbatim>\<open>new Group(logicOperator)\<close> and \<^verbatim>\<open>Group.add\<close>, which pushes at the end.\<close>

definition new_Group :: "string \<Rightarrow> 'n Group" where
  "new_Group logic = Group logic []"

definition Group_add :: "'n Group \<Rightarrow> 'n QueryNode \<Rightarrow> 'n Group" where
  "Group_add g node = Group (logicOperator g) (nodes g @ [node])"

section \<open>The builder\<close>

text \<open>
  A builder owns its root group. Every method mutates the builder it is called on; here
  it takes the builder last and returns it updated. The chaining methods return
  \<^verbatim>\<open>this\<close>, so the returned builder is also the receiver of the next call in a
  chain. A callback receives the sub-builder and is the update it performs on it, through
  the sub-builder's methods; its return value is ignored in the source, and so is any
  effect it has elsewhere here.
\<close>

record 'n Builder =
  root :: "'n Group"

definition new_Builder :: "'n Builder" where
  "new_Builder = \<lparr>root = new_Group Ops_AND\<rparr>"

definition Builder_where ::
  "string \<Rightarrow> string \<Rightarrow> 'n jsvalue \<Rightarrow> 'n Builder \<Rightarrow> 'n Builder" where
  "Builder_where field operator v this =
     this\<lparr>root := Group_add (root this) (Condition field operator v)\<rparr>"

definition Builder_is :: "string \<Rightarrow> 'n jsvalue \<Rightarrow> 'n Builder \<Rightarrow> 'n Builder" where
  "Builder_is field v this = Builder_where field Ops_STRICT_EQUALS v this"

definition Builder_matches :: "string \<Rightarrow> 'n jsvalue \<Rightarrow> 'n Builder \<Rightarrow> 'n Builder" where
  "Builder_matches field v this =
     (if typeof v = ''number'' \<or> typeof v = ''boolean'' then Builder_is field v this
      else Builder_where field Ops_EQUALS v this)"

definition Builder_between ::
  "string \<Rightarrow> 'n jsvalue \<Rightarrow> 'n jsvalue \<Rightarrow> 'n Builder \<Rightarrow> 'n Builder" where
  "Builder_between field fromValue toValue this =
     this\<lparr>root := Group_add (root this)
       (BetweenCondition field Ops_BETWEEN fromValue toValue)\<rparr>"

definition Builder_strictBetween ::
  "string \<Rightarrow> 'n jsvalue \<Rightarrow> 'n jsvalue \<Rightarrow> 'n Builder \<Rightarrow> 'n Builder" where
  "Builder_strictBetween field fromValue toValue this =
     this\<lparr>root := Group_add (root this)
       (BetweenCondition field Ops_STRICT_BETWEEN fromValue toValue)\<rparr>"

definition Builder_group ::
  "string \<Rightarrow> ('n Builder \<Rightarrow> 'n Builder) \<Rightarrow> 'n Builder \<Rightarrow> 'n Builder" where
  "Builder_group logic callback this =
     (let subBuilder = new_Builder\<lparr>root := new_Group logic\<rparr>;
          subBuilder' = callback subBuilder
      in this\<lparr>root := Group_add (root this) (GroupNode (root subBuilder'))\<rparr>)"

definition Builder_and :: "('n Builder \<Rightarrow> 'n Builder) \<Rightarrow> 'n Builder \<Rightarrow> 'n Builder" where
  "Builder_and callback this = Builder_group Ops_AND callback this"

definition Builder_andNot :: "('n Builder \<Rightarrow> 'n Builder) \<Rightarrow> 'n Builder \<Rightarrow> 'n Builder" where
  "Builder_andNot callback this = Builder_group Ops_AND_NOT callback this"

definition Builder_or :: "('n Builder \<Rightarrow> 'n Builder) \<Rightarrow> 'n Builder \<Rightarrow> 'n Builder" where
  "Builder_or callback this = Builder_group Ops_OR callback this"

definition Builder_orNot :: "('n Builder \<Rightarrow> 'n Builder) \<Rightarrow> 'n Builder \<Rightarrow> 'n Builder" where
  "Builder_orNot callback this = Builder_group Ops_OR_NOT callback this"

text \<open>
  \<^verbatim>\<open>build\<close> returns the query string; the second component is the builder as the
  call leaves it.
\<close>

definition Builder_build :: "('n \<Rightarrow> string) \<Rightarrow> 'n Builder \<Rightarrow> string \<times> 'n Builder" where
  "Builder_build nts this =
     (let str = Group_toString nts (root this);
          str = (if startsWith str ''('' \<and> endsWith str '')'' then slice str 1 (- 1) else str)
      in (str, this))"

section \<open>The value formatter of the specification\<close>

text \<open>
  The contract the specification gives the value formatter, in its words, for comparison
  with \<open>formatValue\<close> above: the text of a string, number or boolean, and an
  \<open>UnsupportedValueType\<close> error for any other value.
\<close>

datatype error = UnsupportedValueType

definition formatValue_spec :: "('n \<Rightarrow> string) \<Rightarrow> 'n jsvalue \<Rightarrow> error + string" where
  \<open>formatValue_spec nts v =
     (case v of
        VString s \<Rightarrow> Inr (if startsWith s ''"'' then s else ''"'' @ s @ ''"'')
      | VNumber n \<Rightarrow> Inr (nts n)
      | VBool b \<Rightarrow> Inr (if b then ''true'' else ''false'')
      | _ \<Rightarrow> Inl UnsupportedValueType)\<close>

section \<open>Unfolding the definitions\<close>

lemmas Ops_defs =
  Ops_EQUALS_def Ops_STRICT_EQUALS_def Ops_GT_def Ops_GTE_def Ops_LT_def Ops_LTE_def
  Ops_BETWEEN_def Ops_STRICT_BETWEEN_def Ops_AND_def Ops_OR_def Ops_NOT_def
  Ops_OR_NOT_def Ops_AND_NOT_def

lemmas Builder_defs =
  Builder_where_def Builder_is_def Builder_matches_def Builder_between_def
  Builder_strictBetween_def Builder_group_def Builder_and_def Builder_andNot_def
  Builder_or_def Builder_orNot_def new_Builder_def new_Group_def Group_add_def

lemmas render_defs =
  Condition_toString_def Condition_formatValue_def BetweenCondition_toString_def
  BetweenCondition_formatValue_def startsWith_def

lemmas eval_defs =
  Builder_build_def Builder_defs render_defs Ops_defs endsWith_def slice_def
  uint32_text_def digits.simps digit_def

section \<open>Facts about the string operations\<close>

lemma startsWith_Cons: "startsWith (c # s) [d] = (c = d)"
  by (simp add: startsWith_def)

lemma startsWith_Nil: "startsWith [] [d] = False"
  by (simp add: startsWith_def)

lemma endsWith_snoc: "endsWith (s @ [c]) [d] = (c = d)"
  by (simp add: endsWith_def)

lemma endsWith_Cons_snoc: "endsWith (c # s @ [d]) [e] = (d = e)"
  using endsWith_snoc [of "c # s" d e] by simp

lemma endsWith_append_snoc: "endsWith (a @ b @ [c]) [d] = (c = d)"
  using endsWith_snoc [of "a @ b" c d] by simp

lemma slice_strip: "slice (c # s @ [d]) 1 (- 1) = s"
  by (simp add: slice_def)

section \<open>The value formatter\<close>

text \<open>
  C4. The formatter returns a string that starts with a double quote as it is, and any
  other string, the empty one too, between one opening and one closing double quote. It
  returns a number or a boolean as it is, and the template that embeds the result writes
  the number's own text (whatever the number, whatever text the runtime gives it), or
  \<open>true\<close> or \<open>false\<close>, with no quotes: the condition's text is the field, the operator
  and that text. The copy of the formatter in the range condition computes the same.
\<close>

theorem formatValue_by_type:
  "Condition_formatValue (VString s) =
     (if startsWith s [CHR 0x22] then VString s
      else VString ([CHR 0x22] @ s @ [CHR 0x22])) \<and>
   Condition_formatValue (VString (CHR 0x22 # s)) = VString (CHR 0x22 # s) \<and>
   Condition_formatValue (VString []) = VString [CHR 0x22, CHR 0x22] \<and>
   Condition_formatValue (VString (c # s)) =
     (if c = CHR 0x22 then VString (c # s) else VString (CHR 0x22 # c # s @ [CHR 0x22])) \<and>
   Condition_formatValue (VString ''abc'') = VString [CHR 0x22, CHR ''a'', CHR ''b'', CHR ''c'', CHR 0x22] \<and>
   Condition_formatValue (VNumber x) = VNumber x \<and>
   Condition_toString nts f op (VNumber x) = f @ op @ nts x \<and>
   Condition_toString uint32_text ''age'' '':>='' (VNumber 18) = ''age:>=18'' \<and>
   Condition_formatValue (VBool b) = VBool b \<and>
   Condition_toString nts f op (VBool True) = f @ op @ ''true'' \<and>
   Condition_toString nts f op (VBool False) = f @ op @ ''false'' \<and>
   BetweenCondition_formatValue v = Condition_formatValue v"
proof -
  have strings: "Condition_formatValue (VString t) =
      (if startsWith t [CHR 0x22] then VString t
       else VString ([CHR 0x22] @ t @ [CHR 0x22]))" for t :: string
    by (simp add: Condition_formatValue_def)
  have others: "Condition_formatValue (VNumber x) = VNumber x"
    "Condition_formatValue (VBool d) = VBool d" for d
    by (simp_all add: Condition_formatValue_def)
  have small: "Condition_toString uint32_text ''age'' '':>='' (VNumber 18) = ''age:>=18''"
    by (simp add: Condition_toString_def Condition_formatValue_def uint32_text_def
        digits.simps digit_def)
  have same: "BetweenCondition_formatValue v = Condition_formatValue v"
    by (simp add: Condition_formatValue_def BetweenCondition_formatValue_def)
  show ?thesis
    using small same
    by (simp add: strings others Condition_toString_def startsWith_def)
qed

lemma uint32_text_examples:
  "uint32_text 0 = ''0'' \<and> uint32_text 18 = ''18'' \<and> uint32_text 2025 = ''2025'' \<and>
   uint32_text 4294967295 = ''4294967295''"
  by (simp add: uint32_text_def digits.simps digit_def)

section \<open>Rendering a group\<close>

lemma join_Cons_concat: "join sep (x # xs) = x @ concat (map (\<lambda>y. sep @ y) xs)"
  by (induction xs arbitrary: x) simp_all

lemma Group_toString_none: "Group_toString nts (Group l []) = ''''"
  by simp

lemma Group_toString_one: "Group_toString nts (Group l [a]) = QueryNode_toString nts a"
  by simp

lemma Group_toString_many:
  "Group_toString nts (Group l (a # b # cs)) =
     ''('' @ QueryNode_toString nts a
       @ concat (map (\<lambda>n. '' '' @ l @ '' '' @ QueryNode_toString nts n) (b # cs)) @ '')''"
proof -
  have "join sep (map f (a # b # cs)) = f a @ concat (map (\<lambda>n. sep @ f n) (b # cs))"
    for sep and f :: "'a QueryNode \<Rightarrow> string"
    using join_Cons_concat [of sep "f a" "map f (b # cs)"] by (simp add: comp_def)
  from this [of "'' '' @ l @ '' ''" "QueryNode_toString nts"] show ?thesis
    by (simp del: join.simps)
qed

lemma Group_toString_no_nodes: "nodes g = [] \<Longrightarrow> Group_toString nts g = ''''"
  by (cases g) simp

lemma foldl_add_Group: "foldl Group_add (Group l ms) ns = Group l (ms @ ns)"
  by (induction ns arbitrary: ms) (simp_all add: Group_add_def)

lemma nodes_foldl_add: "nodes (foldl Group_add g ns) = nodes g @ ns"
  by (induction ns arbitrary: g) (simp_all add: Group_add_def)

lemma logicOperator_foldl_add: "logicOperator (foldl Group_add g ns) = logicOperator g"
  by (induction ns arbitrary: g) (simp_all add: Group_add_def)

text \<open>
  C3. Appending children \<open>ns\<close> one after the other to a group leaves its logic operator
  alone and puts them, in that order, behind the children it had. A group with no child
  renders to the empty string, and a group with one child to that child's text as it is,
  whatever the logic operator. A group with two or more children renders to an opening
  bracket, the first child's text, then for each further child in the order of the array
  a space, the logic operator, a space and that child's text, and a closing bracket; for
  three children that is written out. A child that is a group contributes the text of
  that group, rendered by the same rule, and a child that is a condition the field, the
  operator and the formatted value. In the last two lines a group of three appended
  children, the second a group of two, and a group whose only child is a group.
\<close>

theorem Group_render_by_children:
  \<open>foldl Group_add (Group l ms) ns = Group l (ms @ ns) \<and>
   nodes (foldl Group_add g ns) = nodes g @ ns \<and>
   logicOperator (foldl Group_add g ns) = logicOperator g \<and>
   Group_toString nts (Group l []) = '''' \<and>
   Group_toString nts (Group l [a]) = QueryNode_toString nts a \<and>
   Group_toString nts (Group l (a # b # cs)) =
     ''('' @ QueryNode_toString nts a
       @ concat (map (\<lambda>n. '' '' @ l @ '' '' @ QueryNode_toString nts n) (b # cs)) @ '')'' \<and>
   Group_toString nts (foldl Group_add (new_Group l) [a, b, c]) =
     ''('' @ QueryNode_toString nts a @ '' '' @ l @ '' '' @ QueryNode_toString nts b
       @ '' '' @ l @ '' '' @ QueryNode_toString nts c @ '')'' \<and>
   QueryNode_toString nts (GroupNode g) = Group_toString nts g \<and>
   QueryNode_toString nts (Condition f op v) =
     f @ op @ ToString nts (Condition_formatValue v) \<and>
   Group_toString nts
     (foldl Group_add (new_Group ''OR'')
        [Condition ''a'' '':'' (VString ''x''),
         GroupNode (foldl Group_add (new_Group ''AND'')
           [Condition ''b'' '':'' (VString ''y''), Condition ''c'' '':>'' (VBool True)]),
         BetweenCondition ''d'' '':['' (VString ''1'') (VString ''2'')])
     = ''(a:"x" OR (b:"y" AND c:>true) OR d:["1" TO "2"])'' \<and>
   Group_toString nts
     (foldl Group_add (new_Group ''AND NOT'')
        [GroupNode (foldl Group_add (new_Group ''OR'')
           [Condition ''b'' '':'' (VString ''y''), Condition ''c'' '':'' (VString ''z'')])])
     = ''(b:"y" OR c:"z")''\<close>
proof -
  have three: "Group_toString nts (foldl Group_add (new_Group l) [a, b, c]) =
     ''('' @ QueryNode_toString nts a @ '' '' @ l @ '' '' @ QueryNode_toString nts b
       @ '' '' @ l @ '' '' @ QueryNode_toString nts c @ '')''"
    by (simp add: new_Group_def Group_add_def)
  have nested: \<open>Group_toString nts
     (foldl Group_add (new_Group ''OR'')
        [Condition ''a'' '':'' (VString ''x''),
         GroupNode (foldl Group_add (new_Group ''AND'')
           [Condition ''b'' '':'' (VString ''y''), Condition ''c'' '':>'' (VBool True)]),
         BetweenCondition ''d'' '':['' (VString ''1'') (VString ''2'')])
     = ''(a:"x" OR (b:"y" AND c:>true) OR d:["1" TO "2"])''\<close>
    by (simp add: new_Group_def Group_add_def render_defs Ops_defs)
  have single: \<open>Group_toString nts
     (foldl Group_add (new_Group ''AND NOT'')
        [GroupNode (foldl Group_add (new_Group ''OR'')
           [Condition ''b'' '':'' (VString ''y''), Condition ''c'' '':'' (VString ''z'')])])
     = ''(b:"y" OR c:"z")''\<close>
    by (simp add: new_Group_def Group_add_def render_defs)
  have leaf: "QueryNode_toString nts (Condition f op v) =
      f @ op @ ToString nts (Condition_formatValue v)"
    by (simp add: Condition_toString_def)
  have sub: "QueryNode_toString nts (GroupNode g) = Group_toString nts g"
    by simp
  from foldl_add_Group [of l ms ns] nodes_foldl_add [of g ns]
    logicOperator_foldl_add [of g ns] Group_toString_none [of nts l]
    Group_toString_one [of nts l a] Group_toString_many [of nts l a b cs]
    three leaf sub nested single
  show ?thesis by blast
qed

section \<open>Building\<close>

lemma build_wrapped:
  "Group_toString nts (root b) = ''('' @ s @ '')'' \<Longrightarrow> Builder_build nts b = (s, b)"
  by (simp add: Builder_build_def Let_def startsWith_Cons endsWith_Cons_snoc slice_strip)

lemma build_unwrapped:
  "\<not> endsWith (Group_toString nts (root b)) '')'' \<Longrightarrow>
   Builder_build nts b = (Group_toString nts (root b), b)"
  by (simp add: Builder_build_def Let_def)

text \<open>
  C7. \<open>build\<close> leaves the builder, and so the root group and everything below it, as it
  found it; a second \<open>build\<close> right after the first returns the same string, and so does
  a \<open>build\<close> after any number of them.
\<close>

theorem build_repeatable:
  "snd (Builder_build nts b) = b \<and>
   fst (Builder_build nts (snd (Builder_build nts b))) = fst (Builder_build nts b) \<and>
   ((snd \<circ> Builder_build nts) ^^ n) b = b \<and>
   fst (Builder_build nts (((snd \<circ> Builder_build nts) ^^ n) b)) = fst (Builder_build nts b)"
proof -
  have unchanged: "snd (Builder_build nts c) = c" for c
    by (simp add: Builder_build_def Let_def)
  have "((snd \<circ> Builder_build nts) ^^ n) b = b"
    by (induction n) (simp_all add: unchanged)
  with unchanged show ?thesis by simp
qed

text \<open>
  C9. A builder to which nothing was added builds the empty string: \<open>build\<close> returns,
  with that value.
\<close>

theorem build_fresh_empty: "Builder_build nts new_Builder = ('''', new_Builder)"
  by (simp add: Builder_build_def new_Builder_def new_Group_def startsWith_def)

section \<open>The builder's methods\<close>

text \<open>
  C5. With a number or a boolean, \<open>matches\<close> leaves the builder in the state \<open>is\<close> leaves
  it in; with a string, in the state \<open>where\<close> with the plain equality operator leaves it
  in; and so \<open>build\<close> returns the same in each pair. \<open>is\<close> appends a condition whose
  operator is \<open>:=\<close>, whatever the value.
\<close>

theorem matches_dispatch:
  "(typeof v = ''number'' \<or> typeof v = ''boolean'' \<longrightarrow>
      Builder_matches f v b = Builder_is f v b \<and>
      Builder_build nts (Builder_matches f v b) = Builder_build nts (Builder_is f v b)) \<and>
   (typeof v = ''string'' \<longrightarrow>
      Builder_matches f v b = Builder_where f Ops_EQUALS v b \<and>
      Builder_build nts (Builder_matches f v b) =
        Builder_build nts (Builder_where f Ops_EQUALS v b)) \<and>
   Builder_is f v b = b\<lparr>root := Group_add (root b) (Condition f '':='' v)\<rparr>"
  by (simp add: Builder_matches_def Builder_is_def Builder_where_def Ops_STRICT_EQUALS_def)

theorem matches_dispatch_witness:
  "typeof (VNumber (10 :: 32 word)) = ''number'' \<and>
   Builder_matches ''count'' (VNumber (10 :: 32 word)) (new_Builder :: 32 word Builder) =
     Builder_is ''count'' (VNumber 10) (new_Builder :: 32 word Builder) \<and>
   typeof (VBool True) = ''boolean'' \<and>
   Builder_matches ''isPublished'' (VBool True) (new_Builder :: 32 word Builder) =
     Builder_is ''isPublished'' (VBool True) (new_Builder :: 32 word Builder) \<and>
   typeof (VString ''active'') = ''string'' \<and>
   Builder_matches ''status'' (VString ''active'') (new_Builder :: 32 word Builder) =
     Builder_where ''status'' Ops_EQUALS (VString ''active'') (new_Builder :: 32 word Builder)"
  using matches_dispatch [of "VNumber 10" "''count''" "new_Builder :: 32 word Builder" uint32_text]
    matches_dispatch [of "VBool True" "''isPublished''" "new_Builder :: 32 word Builder" uint32_text]
    matches_dispatch [of "VString ''active''" "''status''" "new_Builder :: 32 word Builder" uint32_text]
  by simp

text \<open>
  C6. \<open>between\<close> appends to the root a range condition whose text is the field, \<open>:[\<close>,
  the formatted lower bound, \<open>TO\<close> between spaces, the formatted upper bound and \<open>]\<close>;
  \<open>strictBetween\<close> appends one whose text has \<open>:{\<close> and \<open>}\<close> in their places. On a
  fresh builder that text is what \<open>build\<close> returns.
\<close>

theorem range_brackets_match:
  "root (Builder_between f x y b) = Group_add (root b) (BetweenCondition f '':['' x y) \<and>
   QueryNode_toString nts (BetweenCondition f '':['' x y) =
     f @ '':['' @ ToString nts (BetweenCondition_formatValue x) @ '' TO ''
       @ ToString nts (BetweenCondition_formatValue y) @ '']'' \<and>
   fst (Builder_build nts (Builder_between f x y new_Builder)) =
     f @ '':['' @ ToString nts (BetweenCondition_formatValue x) @ '' TO ''
       @ ToString nts (BetweenCondition_formatValue y) @ '']'' \<and>
   root (Builder_strictBetween f x y b) =
     Group_add (root b) (BetweenCondition f '':{'' x y) \<and>
   QueryNode_toString nts (BetweenCondition f '':{'' x y) =
     f @ '':{'' @ ToString nts (BetweenCondition_formatValue x) @ '' TO ''
       @ ToString nts (BetweenCondition_formatValue y) @ ''}'' \<and>
   fst (Builder_build nts (Builder_strictBetween f x y new_Builder)) =
     f @ '':{'' @ ToString nts (BetweenCondition_formatValue x) @ '' TO ''
       @ ToString nts (BetweenCondition_formatValue y) @ ''}''"
proof -
  let ?X = "ToString nts (BetweenCondition_formatValue x)"
  let ?Y = "ToString nts (BetweenCondition_formatValue y)"
  let ?incl = "f @ '':['' @ ?X @ '' TO '' @ ?Y"
  let ?excl = "f @ '':{'' @ ?X @ '' TO '' @ ?Y"
  have a: "root (Builder_between f x y b) =
      Group_add (root b) (BetweenCondition f '':['' x y)"
    and a': "root (Builder_strictBetween f x y b) =
      Group_add (root b) (BetweenCondition f '':{'' x y)"
    by (simp_all add: Builder_between_def Builder_strictBetween_def Ops_BETWEEN_def
        Ops_STRICT_BETWEEN_def)
  have t: "QueryNode_toString nts (BetweenCondition f '':['' x y) = ?incl @ '']''"
    and t': "QueryNode_toString nts (BetweenCondition f '':{'' x y) = ?excl @ ''}''"
    by (simp_all add: BetweenCondition_toString_def Ops_STRICT_BETWEEN_def)
  have g: "Group_toString nts (root (Builder_between f x y new_Builder)) = ?incl @ '']''"
    and g': "Group_toString nts (root (Builder_strictBetween f x y new_Builder)) = ?excl @ ''}''"
    using t t' by (simp_all add: Builder_defs Ops_BETWEEN_def Ops_STRICT_BETWEEN_def)
  have "\<not> endsWith (?incl @ '']'') '')''" and "\<not> endsWith (?excl @ ''}'') '')''"
    using endsWith_snoc [of ?incl "CHR '']''" "CHR '')''"]
      endsWith_snoc [of ?excl "CHR ''}''" "CHR '')''"]
    by simp_all
  with g g' have "fst (Builder_build nts (Builder_between f x y new_Builder)) = ?incl @ '']''"
    and "fst (Builder_build nts (Builder_strictBetween f x y new_Builder)) = ?excl @ ''}''"
    using build_unwrapped [of nts "Builder_between f x y new_Builder"]
      build_unwrapped [of nts "Builder_strictBetween f x y new_Builder"]
    by simp_all
  with a a' t t' show ?thesis by simp
qed

section \<open>Values that are not strings, numbers or booleans\<close>

text \<open>
  C8, as the code has it. The formatter raises nothing. A value that is not a string, a
  number or a boolean comes back from it as it is, the condition renders it with the
  text the template gives it, and \<open>where\<close> and \<open>build\<close> on a fresh builder return normally
  with the field, the operator and that text.
\<close>

theorem formatValue_other_values:
  assumes "typeof v \<notin> {''string'', ''number'', ''boolean''}"
  shows "Condition_formatValue v = v \<and> BetweenCondition_formatValue v = v \<and>
    QueryNode_toString nts (Condition f op v) = f @ op @ ToString nts v \<and>
    Builder_build nts (Builder_where f op v new_Builder) =
      (f @ op @ ToString nts v, Builder_where f op v new_Builder)"
proof -
  from assms have fv: "Condition_formatValue v = v" "BetweenCondition_formatValue v = v"
    by (simp_all add: Condition_formatValue_def BetweenCondition_formatValue_def)
  then have ts: "QueryNode_toString nts (Condition f op v) = f @ op @ ToString nts v"
    by (simp add: Condition_toString_def)
  have r: "Group_toString nts (root (Builder_where f op v new_Builder)) = f @ op @ ToString nts v"
    using ts by (simp add: Builder_defs)
  from assms have "v = VNull \<or> v = VUndefined"
    by (cases v) simp_all
  then have "\<not> endsWith (f @ op @ ToString nts v) '')''"
    using endsWith_append_snoc [of f "op @ ''nul''" "CHR ''l''" "CHR '')''"]
      endsWith_append_snoc [of f "op @ ''undefine''" "CHR ''d''" "CHR '')''"]
    by auto
  with r have "Builder_build nts (Builder_where f op v new_Builder) =
      (f @ op @ ToString nts v, Builder_where f op v new_Builder)"
    using build_unwrapped [of nts "Builder_where f op v new_Builder"] by simp
  with fv ts show ?thesis by simp
qed

theorem formatValue_other_values_witness:
  "typeof (VNull :: 32 word jsvalue) \<notin> {''string'', ''number'', ''boolean''} \<and>
   Condition_formatValue (VNull :: 32 word jsvalue) = VNull \<and>
   fst (Builder_build uint32_text (Builder_where ''f'' '':'' VNull (new_Builder :: 32 word Builder))) = ''f:null''"
  using formatValue_other_values
      [where v = VNull and f = "''f''" and op = "'':''" and nts = uint32_text] by simp

text \<open>
  C8, as the specification words it, fails at \<open>null\<close>: the specification's formatter raises
  \<open>UnsupportedValueType\<close> there, the code's returns \<open>null\<close>, and the query is built.
\<close>

theorem formatValue_null_no_error:
  "formatValue_spec uint32_text VNull = Inl UnsupportedValueType \<and>
   Condition_formatValue VNull = VNull \<and>
   Inr (ToString uint32_text (Condition_formatValue VNull)) \<noteq> formatValue_spec uint32_text VNull \<and>
   fst (Builder_build uint32_text (Builder_where ''f'' Ops_EQUALS VNull new_Builder)) = ''f:null''"
  by (simp add: formatValue_spec_def eval_defs)

section \<open>Scenarios\<close>

text \<open>
  C1. The chain \<open>matches\<close>, \<open>or\<close> with two \<open>matches\<close> in its callback, \<open>where\<close> with \<open>:>=\<close>
  and \<open>where\<close> with \<open>:<=\<close> on a fresh builder builds the four parts joined by \<open>AND\<close>,
  the \<open>OR\<close> group inside its brackets and no brackets around the whole: the root
  renders with them, and \<open>build\<close> strips them.
\<close>

theorem scenario_requirements:
  \<open>Group_toString nts (root
     (Builder_where ''createdDate'' Ops_LTE (VString ''2025-01-01'')
       (Builder_where ''createdDate'' Ops_GTE (VString ''2024-01-01'')
         (Builder_or
            (\<lambda>qb. Builder_matches ''seller.corporateName'' (VString ''myOtherCompany'')
                    (Builder_matches ''buyer.corporateName'' (VString ''iopole'') qb))
            (Builder_matches ''buyer.siren'' (VString ''*123456789'') new_Builder)))))
   = ''(buyer.siren:"*123456789" AND (buyer.corporateName:"iopole" OR seller.corporateName:"myOtherCompany") AND createdDate:>="2024-01-01" AND createdDate:<="2025-01-01")'' \<and>
   fst (Builder_build nts
     (Builder_where ''createdDate'' Ops_LTE (VString ''2025-01-01'')
       (Builder_where ''createdDate'' Ops_GTE (VString ''2024-01-01'')
         (Builder_or
            (\<lambda>qb. Builder_matches ''seller.corporateName'' (VString ''myOtherCompany'')
                    (Builder_matches ''buyer.corporateName'' (VString ''iopole'') qb))
            (Builder_matches ''buyer.siren'' (VString ''*123456789'') new_Builder)))))
   = ''buyer.siren:"*123456789" AND (buyer.corporateName:"iopole" OR seller.corporateName:"myOtherCompany") AND createdDate:>="2024-01-01" AND createdDate:<="2025-01-01"''\<close>
  by (simp add: eval_defs)

text \<open>
  C2, as the code has it. With \<open>or\<close> as the only call, the root has the \<open>OR\<close> group as
  its only child and renders to that group's bracketed text; \<open>build\<close> strips that pair of
  brackets and returns the two conditions joined by \<open>OR\<close>.
\<close>

theorem scenario_or_only:
  \<open>Group_toString nts (root
     (Builder_or
        (\<lambda>qb. Builder_matches ''role'' (VString ''editor'')
                (Builder_matches ''role'' (VString ''admin'') qb))
        new_Builder))
   = ''(role:"admin" OR role:"editor")'' \<and>
   fst (Builder_build nts
     (Builder_or
        (\<lambda>qb. Builder_matches ''role'' (VString ''editor'')
                (Builder_matches ''role'' (VString ''admin'') qb))
        new_Builder))
   = ''role:"admin" OR role:"editor"''\<close>
  by (simp add: eval_defs)

text \<open>C2, as the specification words it, fails: the string \<open>build\<close> returns is not the bracketed one.\<close>

theorem scenario_or_only_not_bracketed:
  \<open>fst (Builder_build uint32_text
     (Builder_or
        (\<lambda>qb. Builder_matches ''role'' (VString ''editor'')
                (Builder_matches ''role'' (VString ''admin'') qb))
        new_Builder))
   \<noteq> ''(role:"admin" OR role:"editor")''\<close>
  by (simp add: eval_defs)

text \<open>
  C10, as the code has it. When the root has one node and \<open>group\<close> is then called with a
  callback that leaves the sub-builder without children, the empty group renders to the
  empty string and is appended all the same, and \<open>build\<close> returns the node's text
  followed by a space, the logic operator of the root (the parent of the empty group)
  and a space. The logic operator handed to \<open>group\<close> does not appear.
\<close>

theorem empty_group_dangling_separator:
  assumes parent: "root b = Group l [n]"
    and empty: "nodes (root (callback (new_Builder\<lparr>root := new_Group logic\<rparr>))) = []"
  shows "Group_toString nts (root (callback (new_Builder\<lparr>root := new_Group logic\<rparr>))) = '''' \<and>
    nodes (root (Builder_group logic callback b)) =
      [n, GroupNode (root (callback (new_Builder\<lparr>root := new_Group logic\<rparr>)))] \<and>
    fst (Builder_build nts (Builder_group logic callback b)) =
      QueryNode_toString nts n @ '' '' @ l @ '' ''"
proof -
  let ?sub = "root (callback (new_Builder\<lparr>root := new_Group logic\<rparr>))"
  have e: "Group_toString nts ?sub = ''''"
    using empty by (rule Group_toString_no_nodes)
  have r: "root (Builder_group logic callback b) = Group l [n, GroupNode ?sub]"
    using parent by (simp add: Builder_group_def Let_def Group_add_def)
  then have "Group_toString nts (root (Builder_group logic callback b)) =
      ''('' @ (QueryNode_toString nts n @ '' '' @ l @ '' '') @ '')''"
    using e by simp
  then have "Builder_build nts (Builder_group logic callback b) =
      (QueryNode_toString nts n @ '' '' @ l @ '' '', Builder_group logic callback b)"
    by (rule build_wrapped)
  with e r show ?thesis by simp
qed

theorem empty_group_dangling_separator_witness:
  \<open>root (Builder_matches ''status'' (VString ''active'') (new_Builder :: 32 word Builder)) =
     Group ''AND'' [Condition ''status'' '':'' (VString ''active'')] \<and>
   nodes (root ((\<lambda>qb. qb) (new_Builder\<lparr>root := new_Group ''OR''\<rparr>))) = [] \<and>
   fst (Builder_build uint32_text (Builder_group ''OR'' (\<lambda>qb. qb)
          (Builder_matches ''status'' (VString ''active'') (new_Builder :: 32 word Builder))))
     = ''status:"active" AND ''\<close>
proof -
  have p: "root (Builder_matches ''status'' (VString ''active'') (new_Builder :: 32 word Builder)) =
     Group ''AND'' [Condition ''status'' '':'' (VString ''active'')]"
    by (simp add: Builder_defs Ops_defs)
  have e: "nodes (root ((\<lambda>qb. qb) (new_Builder\<lparr>root := new_Group ''OR''\<rparr>))) = []"
    by (simp add: new_Group_def)
  from empty_group_dangling_separator
    [where callback = "\<lambda>qb. qb" and logic = "''OR''" and nts = uint32_text, OF p e] p e
  show ?thesis
    by (simp add: render_defs)
qed

text \<open>
  C10, as the specification words it, fails when the logic handed to \<open>group\<close> is not the root's:
  after \<open>group\<close> with \<open>OR\<close> the dangling separator is \<open>AND\<close>.
\<close>

theorem empty_group_separator_not_own_logic:
  \<open>fst (Builder_build uint32_text (Builder_group ''OR'' (\<lambda>qb. qb)
          (Builder_matches ''status'' (VString ''active'') new_Builder)))
     = ''status:"active" AND '' \<and>
   fst (Builder_build uint32_text (Builder_group ''OR'' (\<lambda>qb. qb)
          (Builder_matches ''status'' (VString ''active'') new_Builder)))
     \<noteq> ''status:"active" OR ''\<close>
  by (simp add: eval_defs)

section \<open>The repository's test-suite\<close>

text \<open>The expectations of \<^verbatim>\<open>builder.spec.js\<close>, evaluated on the model.\<close>

lemma test_simple_string_match:
  \<open>fst (Builder_build uint32_text (Builder_matches ''status'' (VString ''active'') new_Builder))
     = ''status:"active"''\<close>
  by (simp add: eval_defs)

lemma test_strict_integer_match:
  "fst (Builder_build uint32_text (Builder_is ''count'' (VNumber 10) new_Builder)) = ''count:=10''"
  by (simp add: eval_defs)

lemma test_strict_boolean_match:
  "fst (Builder_build uint32_text (Builder_is ''isPublished'' (VBool True) new_Builder))
     = ''isPublished:=true''"
  by (simp add: eval_defs)

lemma test_comparison_gte:
  "fst (Builder_build uint32_text (Builder_where ''age'' Ops_GTE (VNumber 18) new_Builder)) = ''age:>=18''"
  by (simp add: eval_defs)

lemma test_date_comparison:
  \<open>fst (Builder_build uint32_text (Builder_where ''createdDate'' Ops_LTE (VString ''2025-01-01'')
          new_Builder)) = ''createdDate:<="2025-01-01"''\<close>
  by (simp add: eval_defs)

lemma test_wildcard:
  \<open>fst (Builder_build uint32_text (Builder_matches ''buyer.siren'' (VString ''*123456'') new_Builder))
     = ''buyer.siren:"*123456"''\<close>
  by (simp add: eval_defs)

lemma test_already_quoted:
  \<open>fst (Builder_build uint32_text (Builder_matches ''company'' (VString ''"MyCompany"'') new_Builder))
     = ''company:"MyCompany"''\<close>
  by (simp add: eval_defs)

lemma test_root_conditions_joined_with_AND:
  \<open>fst (Builder_build uint32_text (Builder_matches ''lastName'' (VString ''Doe'')
          (Builder_matches ''firstName'' (VString ''John'') new_Builder)))
     = ''firstName:"John" AND lastName:"Doe"''\<close>
  by (simp add: eval_defs)

lemma test_grouped_OR:
  \<open>fst (Builder_build uint32_text
     (Builder_or
        (\<lambda>sub. Builder_matches ''role'' (VString ''editor'')
                 (Builder_matches ''role'' (VString ''admin'') sub))
        (Builder_matches ''status'' (VString ''active'') new_Builder)))
     = ''status:"active" AND (role:"admin" OR role:"editor")''\<close>
  by (simp add: eval_defs)

lemma test_deeply_nested:
  \<open>fst (Builder_build uint32_text
     (Builder_or
        (\<lambda>rootOr. Builder_and
            (\<lambda>subAnd. Builder_matches ''country'' (VString ''FR'')
                        (Builder_where ''age'' Ops_GTE (VNumber 18) subAnd))
            (Builder_matches ''status'' (VString ''active'') rootOr))
        new_Builder))
     = ''status:"active" OR (age:>=18 AND country:"FR")''\<close>
  by (simp add: eval_defs)

lemma test_single_item_group:
  "fst (Builder_build uint32_text (Builder_or (\<lambda>sub. Builder_matches ''id'' (VNumber 1) sub) new_Builder))
     = ''id:=1''"
  by (simp add: eval_defs)

lemma test_between_numbers:
  "fst (Builder_build uint32_text (Builder_between ''amount'' (VNumber 10) (VNumber 20) new_Builder))
     = ''amount:[10 TO 20]''"
  by (simp add: eval_defs)

lemma test_between_strings:
  \<open>fst (Builder_build uint32_text (Builder_between ''amount'' (VString ''2025-01-01'')
          (VString ''2025-01-31'') new_Builder))
     = ''amount:["2025-01-01" TO "2025-01-31"]''\<close>
  by (simp add: eval_defs)

lemma test_strictBetween_numbers:
  "fst (Builder_build uint32_text (Builder_strictBetween ''amount'' (VNumber 10) (VNumber 20) new_Builder))
     = ''amount:{10 TO 20}''"
  by (simp add: eval_defs)

lemma test_strictBetween_strings:
  \<open>fst (Builder_build uint32_text (Builder_strictBetween ''amount'' (VString ''2025-01-01'')
          (VString ''2025-01-31'') new_Builder))
     = ''amount:{"2025-01-01" TO "2025-01-31"}''\<close>
  by (simp add: eval_defs)

lemma test_unary_expression:
  \<open>fst (Builder_build uint32_text
     (Builder_orNot
        (\<lambda>qb. Builder_and
            (\<lambda>subQb. Builder_matches ''name'' (VString ''myOtherName'')
                       (Builder_matches ''amount'' (VNumber 100) subQb))
            (Builder_matches ''name'' (VString ''myName'') qb))
        new_Builder))
     = ''name:"myName" OR NOT (amount:=100 AND name:"myOtherName")''\<close>
  by (simp add: eval_defs)

end
